theory Spec2Isabelle
  imports Main
begin

section \<open>Values that cross the wire\<close>

text \<open>
  The bodies the authority sends back are parsed JSON, and the code reads them with JavaScript's
  property access and truthiness. Numbers are kept as integers: the code only
  asks whether a value is truthy, never computes with it.
\<close>

datatype jsval =
    JUndefined
  | JNull
  | JBool bool
  | JNum int
  | JStr string
  | JArr "jsval list"
  | JObj "(string \<times> jsval) list"

text \<open>JavaScript truthiness, as used by \<^verbatim>\<open>!x\<close> and \<^verbatim>\<open>Boolean(x)\<close>.\<close>

fun truthy :: "jsval \<Rightarrow> bool" where
  "truthy JUndefined = False"
| "truthy JNull = False"
| "truthy (JBool b) = b"
| "truthy (JNum n) = (n \<noteq> 0)"
| "truthy (JStr s) = (s \<noteq> [])"
| "truthy (JArr xs) = True"
| "truthy (JObj kvs) = True"

text \<open>
  \<^verbatim>\<open>v?.name\<close> for the property names the package reads (\<^verbatim>\<open>active\<close>,
  \<^verbatim>\<open>sub\<close>, \<^verbatim>\<open>role\<close>, \<^verbatim>\<open>permissions\<close>, \<^verbatim>\<open>hasPermission\<close>,
  \<^verbatim>\<open>hasRole\<close>): an object yields the property or \<^verbatim>\<open>undefined\<close>, everything else
  yields \<^verbatim>\<open>undefined\<close>. The plain reads \<^verbatim>\<open>response.data.sub\<close> of
  \<^verbatim>\<open>validateToken\<close> happen only after \<^verbatim>\<open>response.data?.active\<close> was truthy, that is on
  an object, where the plain read and the optional one agree.
\<close>

fun get_prop :: "jsval \<Rightarrow> string \<Rightarrow> jsval" where
  "get_prop (JObj kvs) name = (case map_of kvs name of None \<Rightarrow> JUndefined | Some v \<Rightarrow> v)"
| "get_prop v name = JUndefined"

section \<open>Data model\<close>

text \<open>\<^verbatim>\<open>interface User\<close> of types.d.ts. The fields copied from the introspection body hold
  whatever the authority sent; \<^verbatim>\<open>accessToken\<close> is the string the caller passed.\<close>

record user =
  sub :: jsval
  role :: jsval
  permissions :: jsval
  accessToken :: string

text \<open>The value type of \<^verbatim>\<open>tokenCache\<close>: \<^verbatim>\<open>{ user: User; expiresAt: number }\<close>.\<close>

record cache_entry =
  cached_user :: user
  expiresAt :: int

datatype match_mode = MatchAny | MatchAll

text \<open>The last parameter of \<^verbatim>\<open>checkPermission\<close> and \<^verbatim>\<open>checkRole\<close>.\<close>

record access_context =
  orgId :: string
  workspaceId :: "string option"
  objectId :: "string option"
  objectType :: "string option"

text \<open>An HTTP response as axios hands it over: status and parsed body.\<close>

record response =
  status :: nat
  data :: jsval

text \<open>
  Everything that can be thrown. The four Nest exceptions carry their message. An
  \<^verbatim>\<open>AxiosError\<close> carries the response when one was received (none on a connection
  failure or a timeout) and a message; \<^verbatim>\<open>Error\<close> stands for any other thrown value.
\<close>

datatype error =
    UnauthorizedException string
  | ServiceUnavailableException string
  | ForbiddenException string
  | BadRequestException string
  | AxiosError "response option" string
  | Error string

text \<open>\<^verbatim>\<open>error instanceof UnauthorizedException\<close>, \<^verbatim>\<open>error instanceof ServiceUnavailableException\<close>.\<close>

fun instanceof_Unauthorized :: "error \<Rightarrow> bool" where
  "instanceof_Unauthorized (UnauthorizedException m) = True"
| "instanceof_Unauthorized e = False"

fun instanceof_ServiceUnavailable :: "error \<Rightarrow> bool" where
  "instanceof_ServiceUnavailable (ServiceUnavailableException m) = True"
| "instanceof_ServiceUnavailable e = False"

text \<open>\<^verbatim>\<open>axiosErr?.response?.status\<close>: \<^verbatim>\<open>None\<close> is \<^verbatim>\<open>undefined\<close>. A Nest exception built
  from a message string has a \<^verbatim>\<open>response\<close> body with \<^verbatim>\<open>statusCode\<close> but no \<^verbatim>\<open>status\<close>.\<close>

fun response_status :: "error \<Rightarrow> nat option" where
  "response_status (AxiosError (Some r) m) = Some (status r)"
| "response_status e = None"

text \<open>\<^verbatim>\<open>!status || status >= 500\<close>: \<^verbatim>\<open>undefined\<close> and \<^verbatim>\<open>0\<close> are falsy.\<close>

fun unavailable_status :: "nat option \<Rightarrow> bool" where
  "unavailable_status None = True"
| "unavailable_status (Some n) = (n = 0 \<or> n \<ge> 500)"

section \<open>Outbound calls\<close>

text \<open>The body of a POST, with the fields in the order the code writes them:
  \<^verbatim>\<open>{ token }\<close>, and
  \<^verbatim>\<open>{ userId, orgId, workspaceId, objectType, objectId, permissions | roles, match }\<close>.\<close>

datatype payload =
    IntrospectPayload string
  | PermissionCheckPayload jsval string "string option" "string option" "string option"
      "string list" match_mode
  | RoleCheckPayload jsval string "string option" "string option" "string option"
      "string list" match_mode

record post =
  url :: string
  body :: payload
  authorization :: "string option"

text \<open>
  What \<^verbatim>\<open>await firstValueFrom(this.httpService.post(...))\<close> does: it resolves with a
  response or rejects with a thrown value. Which statuses resolve is decided by the
  injected service, not by this package (axios resolves the statuses 200 to 299 unless it
  is configured otherwise and rejects the others with an \<^verbatim>\<open>AxiosError\<close> that carries
  the response); the code only ever sees the one or the other, so a response with a
  success status is a resolved call here and a response with an error status is a rejected
  call that carries it.
\<close>

datatype http_result = Resolved response | Rejected error

text \<open>The injected \<^verbatim>\<open>HttpService\<close>: for a request, the result and the milliseconds
  that pass while the caller awaits it.\<close>

type_synonym http_service = "post \<Rightarrow> http_result \<times> nat"

section \<open>Process-wide state\<close>

text \<open>
  \<^verbatim>\<open>process.env\<close>, \<^verbatim>\<open>Date.now()\<close>, the module-level \<^verbatim>\<open>tokenCache\<close>, and the log
  of the POSTs issued so far (oldest first). The log is not in the source: it makes
  "a network call was issued" a fact about the state. Calls are
  modelled one after another; nothing else touches the state while a call awaits.
\<close>

record sys =
  env :: "string \<rightharpoonup> string"
  clock :: int
  tokenCache :: "string \<rightharpoonup> cache_entry"
  posts :: "post list"

definition INTROSPECTION_TTL_MS :: int where
  "INTROSPECTION_TTL_MS = 30000"

text \<open>\<^verbatim>\<open>process.env.X || d\<close>: an unset or empty variable gives the default.\<close>

definition env_or :: "sys \<Rightarrow> string \<Rightarrow> string \<Rightarrow> string" where
  "env_or s name d = (case env s name of None \<Rightarrow> d | Some v \<Rightarrow> if v = [] then d else v)"

text \<open>\<^verbatim>\<open>toLowerCase\<close> on the ASCII letters. No character outside ASCII lower-cases to a
  letter of \<^verbatim>\<open>development\<close>, so the comparison of \<^verbatim>\<open>isDevEnv\<close> is not affected.\<close>

definition lower_char :: "char \<Rightarrow> char" where
  "lower_char c =
     (case map_of (zip ''ABCDEFGHIJKLMNOPQRSTUVWXYZ'' ''abcdefghijklmnopqrstuvwxyz'') c of
        None \<Rightarrow> c | Some d \<Rightarrow> d)"

definition toLowerCase :: "string \<Rightarrow> string" where
  "toLowerCase s = map lower_char s"

definition isDevEnv :: "sys \<Rightarrow> bool" where
  "isDevEnv s = (toLowerCase (env_or s ''NODE_ENV'' []) = ''development'')"

text \<open>Issuing a POST: the request is logged, the clock advances by the time awaited.\<close>

definition http_post :: "http_service \<Rightarrow> post \<Rightarrow> sys \<Rightarrow> http_result \<times> sys" where
  "http_post http p s =
     (case http p of (r, d) \<Rightarrow> (r, s\<lparr>clock := clock s + int d, posts := posts s @ [p]\<rparr>))"

section \<open>AuthValidatorService\<close>

text \<open>Lines 33-39 of \<^verbatim>\<open>validateToken\<close>: the cache lookup.\<close>

definition cache_lookup :: "sys \<Rightarrow> string \<Rightarrow> user option" where
  "cache_lookup s token =
     (if \<not> isDevEnv s then
        (case tokenCache s token of
           None \<Rightarrow> None
         | Some cached \<Rightarrow> if expiresAt cached > clock s then Some (cached_user cached) else None)
      else None)"

definition introspect_request :: "sys \<Rightarrow> string \<Rightarrow> post" where
  "introspect_request s token =
     \<lparr>url = env_or s ''TOKEN_INTROSPECTION_URL'' ''http://core-service:3000/auth/introspect'',
      body = IntrospectPayload token,
      authorization = None\<rparr>"

text \<open>The \<^verbatim>\<open>catch\<close> block of \<^verbatim>\<open>validateToken\<close> (lines 66-88); logging is left out.\<close>

definition validateToken_catch :: "error \<Rightarrow> error" where
  "validateToken_catch e =
     (if instanceof_Unauthorized e then e
      else if unavailable_status (response_status e)
        then ServiceUnavailableException ''Auth service unavailable''
      else UnauthorizedException ''Access denied - Token verification failed'')"

definition validateToken :: "http_service \<Rightarrow> string \<Rightarrow> sys \<Rightarrow> (error + user) \<times> sys" where
  "validateToken http token s =
     (case cache_lookup s token of
        Some u \<Rightarrow> (Inr u, s)
      | None \<Rightarrow>
          (case http_post http (introspect_request s token) s of
             (Rejected e, s1) \<Rightarrow> (Inl (validateToken_catch e), s1)
           | (Resolved r, s1) \<Rightarrow>
               if \<not> truthy (get_prop (data r) ''active'')
               then (Inl (validateToken_catch (UnauthorizedException ''Invalid token'')), s1)
               else
                 let u = \<lparr>sub = get_prop (data r) ''sub'',
                          role = get_prop (data r) ''role'',
                          permissions = get_prop (data r) ''permissions'',
                          accessToken = token\<rparr>
                 in if \<not> isDevEnv s1
                    then (Inr u, s1\<lparr>tokenCache := (tokenCache s1)
                            (token \<mapsto> \<lparr>cached_user = u,
                                        expiresAt = clock s1 + INTROSPECTION_TTL_MS\<rparr>)\<rparr>)
                    else (Inr u, s1)))"

text \<open>The \<^verbatim>\<open>catch\<close> block shared by \<^verbatim>\<open>checkPermission\<close> and \<^verbatim>\<open>checkRole\<close>.\<close>

definition check_catch :: "error \<Rightarrow> error + bool" where
  "check_catch e =
     (if unavailable_status (response_status e)
      then Inl (ServiceUnavailableException ''Authorization service unavailable'')
      else Inr False)"

definition permission_request :: "sys \<Rightarrow> user \<Rightarrow> string list \<Rightarrow> match_mode \<Rightarrow> access_context \<Rightarrow> post" where
  "permission_request s u perms match ctx =
     \<lparr>url = env_or s ''PERMISSION_CHECK_URL'' ''http://core-service:3000/auth/check-permission'',
      body = PermissionCheckPayload (sub u) (orgId ctx) (workspaceId ctx) (objectType ctx)
               (objectId ctx) perms match,
      authorization = Some (''Bearer '' @ accessToken u)\<rparr>"

definition checkPermission ::
  "http_service \<Rightarrow> user \<Rightarrow> string list \<Rightarrow> match_mode \<Rightarrow> access_context \<Rightarrow> sys
     \<Rightarrow> (error + bool) \<times> sys" where
  "checkPermission http u perms match ctx s =
     (case http_post http (permission_request s u perms match ctx) s of
        (Resolved r, s1) \<Rightarrow> (Inr (truthy (get_prop (data r) ''hasPermission'')), s1)
      | (Rejected e, s1) \<Rightarrow> (check_catch e, s1))"

definition role_request :: "sys \<Rightarrow> user \<Rightarrow> string list \<Rightarrow> match_mode \<Rightarrow> access_context \<Rightarrow> post" where
  "role_request s u roles match ctx =
     \<lparr>url = env_or s ''ROLE_CHECK_URL'' ''http://core-service:3000/auth/check-role'',
      body = RoleCheckPayload (sub u) (orgId ctx) (workspaceId ctx) (objectType ctx)
               (objectId ctx) roles match,
      authorization = Some (''Bearer '' @ accessToken u)\<rparr>"

definition checkRole ::
  "http_service \<Rightarrow> user \<Rightarrow> string list \<Rightarrow> match_mode \<Rightarrow> access_context \<Rightarrow> sys
     \<Rightarrow> (error + bool) \<times> sys" where
  "checkRole http u roles match ctx s =
     (case http_post http (role_request s u roles match ctx) s of
        (Resolved r, s1) \<Rightarrow> (Inr (truthy (get_prop (data r) ''hasRole'')), s1)
      | (Rejected e, s1) \<Rightarrow> (check_catch e, s1))"

section \<open>PermissionGuard and RoleGuard\<close>

text \<open>
  What \<^verbatim>\<open>reflector.getAllAndOverride<string[] | string>(key, ...)\<close> returns for the
  keys \<^verbatim>\<open>permissions\<close> and \<^verbatim>\<open>roles\<close>; the key \<^verbatim>\<open>match\<close> gives a
  \<^typ>\<open>match_mode option\<close>.
\<close>

datatype metadata = MetaUndefined | MetaString string | MetaList "string list"

text \<open>The part of the Express request the guards read. Node hands a header over as a
  string of Latin-1 characters.\<close>

record request =
  headers :: "string \<rightharpoonup> string"
  req_user :: "user option"

text \<open>Lines 34-38: an array as it is, a single string as a one-element array.\<close>

fun required_list :: "metadata \<Rightarrow> string list option" where
  "required_list (MetaList xs) = Some xs"
| "required_list (MetaString x) = Some [x]"
| "required_list MetaUndefined = None"

text \<open>\<^verbatim>\<open>reflector.getAllAndOverride('match', ...) || 'all'\<close>.\<close>

fun match_or_all :: "match_mode option \<Rightarrow> match_mode" where
  "match_or_all None = MatchAll"
| "match_or_all (Some m) = m"

text \<open>\<^verbatim>\<open>String.prototype.trim\<close>: the white space and line terminators of JavaScript that
  a Latin-1 character can be (tab, LF, VT, FF, CR, space, no-break space).\<close>

definition is_ws :: "char \<Rightarrow> bool" where
  "is_ws c = (c = CHR 0x09 \<or> c = CHR 0x0A \<or> c = CHR 0x0B \<or> c = CHR 0x0C \<or> c = CHR 0x0D
              \<or> c = CHR 0x20 \<or> c = CHR 0xA0)"

definition trim :: "string \<Rightarrow> string" where
  "trim s = rev (dropWhile is_ws (rev (dropWhile is_ws s)))"

text \<open>\<^verbatim>\<open>String(request.headers[name] || '').trim()\<close>.\<close>

definition required_header :: "request \<Rightarrow> string \<Rightarrow> string" where
  "required_header req name = trim (case headers req name of None \<Rightarrow> [] | Some v \<Rightarrow> v)"

text \<open>\<^verbatim>\<open>request.headers[name] ? String(request.headers[name]).trim() : undefined\<close>.\<close>

definition optional_header :: "request \<Rightarrow> string \<Rightarrow> string option" where
  "optional_header req name =
     (case headers req name of
        None \<Rightarrow> None
      | Some v \<Rightarrow> if v = [] then None else Some (trim v))"

text \<open>Lines 53-55 and 66: the context the guards pass on,
  \<^verbatim>\<open>{ orgId, workspaceId, objectId }\<close>.\<close>

definition guard_context :: "request \<Rightarrow> access_context" where
  "guard_context req =
     \<lparr>orgId = required_header req ''x-org-id'',
      workspaceId = optional_header req ''x-workspace-id'',
      objectId = optional_header req ''x-object-id'',
      objectType = None\<rparr>"

text \<open>The method of the injected validator that a guard calls.\<close>

type_synonym check_method =
  "user \<Rightarrow> string list \<Rightarrow> match_mode \<Rightarrow> access_context \<Rightarrow> sys \<Rightarrow> (error + bool) \<times> sys"

text \<open>The \<^verbatim>\<open>catch\<close> block of both guards (lines 75-89).\<close>

definition guard_catch :: "error \<Rightarrow> error" where
  "guard_catch e =
     (if instanceof_ServiceUnavailable e then e else ForbiddenException ''Access denied'')"

text \<open>\<^verbatim>\<open>PermissionGuard.canActivate\<close>; the first argument is
  \<^verbatim>\<open>this.authValidator.checkPermission\<close>, the next two what the reflector returns for
  \<^verbatim>\<open>permissions\<close> and \<^verbatim>\<open>match\<close>.\<close>

definition PermissionGuard_canActivate ::
  "check_method \<Rightarrow> metadata \<Rightarrow> match_mode option \<Rightarrow> request \<Rightarrow> sys \<Rightarrow> (error + bool) \<times> sys" where
  "PermissionGuard_canActivate checkPermission_m requiredPermissions matchMeta req s =
     (let matchMode = match_or_all matchMeta in
      case required_list requiredPermissions of
        None \<Rightarrow> (Inr True, s)
      | Some perms \<Rightarrow>
          if perms = [] then (Inr True, s)
          else
            (case req_user req of
               None \<Rightarrow> (Inl (ForbiddenException ''Access denied''), s)
             | Some u \<Rightarrow>
                 if \<not> truthy (sub u) then (Inl (ForbiddenException ''Access denied''), s)
                 else if orgId (guard_context req) = []
                 then (Inl (BadRequestException ''Missing x-org-id header''), s)
                 else
                   (case checkPermission_m u perms matchMode (guard_context req) s of
                      (Inr hasPermission, s1) \<Rightarrow>
                        if \<not> hasPermission
                        then (Inl (guard_catch (ForbiddenException ''Access denied'')), s1)
                        else (Inr True, s1)
                    | (Inl e, s1) \<Rightarrow> (Inl (guard_catch e), s1))))"

text \<open>\<^verbatim>\<open>RoleGuard.canActivate\<close>, with \<^verbatim>\<open>this.authValidator.checkRole\<close> and the
  metadata of \<^verbatim>\<open>roles\<close>.\<close>

definition RoleGuard_canActivate ::
  "check_method \<Rightarrow> metadata \<Rightarrow> match_mode option \<Rightarrow> request \<Rightarrow> sys \<Rightarrow> (error + bool) \<times> sys" where
  "RoleGuard_canActivate checkRole_m requiredRoles matchMeta req s =
     (let matchMode = match_or_all matchMeta in
      case required_list requiredRoles of
        None \<Rightarrow> (Inr True, s)
      | Some roles \<Rightarrow>
          if roles = [] then (Inr True, s)
          else
            (case req_user req of
               None \<Rightarrow> (Inl (ForbiddenException ''Access denied''), s)
             | Some u \<Rightarrow>
                 if \<not> truthy (sub u) then (Inl (ForbiddenException ''Access denied''), s)
                 else if orgId (guard_context req) = []
                 then (Inl (BadRequestException ''Missing x-org-id header''), s)
                 else
                   (case checkRole_m u roles matchMode (guard_context req) s of
                      (Inr hasRole, s1) \<Rightarrow>
                        if \<not> hasRole
                        then (Inl (guard_catch (ForbiddenException ''Access denied'')), s1)
                        else (Inr True, s1)
                    | (Inl e, s1) \<Rightarrow> (Inl (guard_catch e), s1))))"

section \<open>Vocabulary of the properties\<close>

text \<open>The state after a POST \<open>p\<close> that took \<open>d\<close> milliseconds.\<close>

definition awaited :: "sys \<Rightarrow> post \<Rightarrow> nat \<Rightarrow> sys" where
  "awaited s p d = s\<lparr>clock := clock s + int d, posts := posts s @ [p]\<rparr>"

text \<open>The user object of lines 53-58, built from a response and the token.\<close>

definition introspected_user :: "response \<Rightarrow> string \<Rightarrow> user" where
  "introspected_user r token =
     \<lparr>sub = get_prop (data r) ''sub'', role = get_prop (data r) ''role'',
      permissions = get_prop (data r) ''permissions'', accessToken = token\<rparr>"

text \<open>The header \<^verbatim>\<open>x-org-id\<close> is absent, empty or made of white space only.\<close>

definition org_header_blank :: "request \<Rightarrow> bool" where
  "org_header_blank req =
     (case headers req ''x-org-id'' of None \<Rightarrow> True | Some v \<Rightarrow> list_all is_ws v)"

text \<open>A non-empty string, as the specification asks the subject of a user to be.\<close>

fun nonempty_string :: "jsval \<Rightarrow> bool" where
  "nonempty_string (JStr s) = (s \<noteq> [])"
| "nonempty_string v = False"

text \<open>Every cache entry holds a user that carries the token the entry is filed under.\<close>

definition cache_keyed_by_token :: "sys \<Rightarrow> bool" where
  "cache_keyed_by_token s =
     (\<forall>token e. tokenCache s token = Some e \<longrightarrow> accessToken (cached_user e) = token)"

text \<open>A validator method that rejects with a given error, as the mocks of the guards'
  tests do.\<close>

definition validator_throws :: "error \<Rightarrow> check_method" where
  "validator_throws e u xs m ctx s = (Inl e, s)"

section \<open>Concrete states, authorities and requests\<close>

text \<open>A production process with an empty cache at time 1000, and the same process
  flagged as development.\<close>

definition prod_sys :: sys where
  "prod_sys = \<lparr>env = [''NODE_ENV'' \<mapsto> ''production''], clock = 1000,
               tokenCache = Map.empty, posts = []\<rparr>"

definition alice :: user where
  "alice = \<lparr>sub = JStr ''u1'', role = JStr ''r'', permissions = JArr [JStr ''p1''],
            accessToken = ''T1''\<rparr>"


text \<open>Authorities: one that answers the introspection of any token with an active
  user after 5 ms, one that answers 200 with \<^verbatim>\<open>{active: true}\<close> and no subject, one that
  answers 200 with \<^verbatim>\<open>{active: false}\<close>, ones whose answer axios rejects (status 401, 403 or
  503, the last two with a body), one that cannot be reached, and one that times out.\<close>

definition authority_ok :: http_service where
  "authority_ok p =
     (Resolved \<lparr>status = 200,
                data = JObj [(''active'', JBool True), (''sub'', JStr ''u1''), (''role'', JStr ''r''),
                             (''permissions'', JArr [JStr ''p1''])]\<rparr>, 5)"

definition authority_no_sub :: http_service where
  "authority_no_sub p = (Resolved \<lparr>status = 200, data = JObj [(''active'', JBool True)]\<rparr>, 5)"

definition authority_inactive :: http_service where
  "authority_inactive p = (Resolved \<lparr>status = 200, data = JObj [(''active'', JBool False)]\<rparr>, 5)"

definition authority_401 :: http_service where
  "authority_401 p =
     (Rejected (AxiosError (Some \<lparr>status = 401, data = JNull\<rparr>)
                  ''Request failed with status code 401''), 5)"

definition authority_403_inactive :: http_service where
  "authority_403_inactive p =
     (Rejected (AxiosError (Some \<lparr>status = 403, data = JObj [(''active'', JBool False)]\<rparr>)
                  ''Request failed with status code 403''), 5)"

definition authority_503_inactive :: http_service where
  "authority_503_inactive p =
     (Rejected (AxiosError (Some \<lparr>status = 503, data = JObj [(''active'', JBool False)]\<rparr>)
                  ''Request failed with status code 503''), 5)"

definition authority_unreachable :: http_service where
  "authority_unreachable p = (Rejected (Error ''ECONNREFUSED''), 1)"

definition authority_timeout :: http_service where
  "authority_timeout p = (Rejected (AxiosError None ''timeout of 5000ms exceeded''), 5000)"

text \<open>Authorities for the access checks: a decision, a body without the decision
  field, and a body that is no object at all.\<close>

definition authority_grants :: http_service where
  "authority_grants p =
     (Resolved \<lparr>status = 200,
                data = JObj [(''hasPermission'', JBool True), (''hasRole'', JBool True)]\<rparr>, 5)"

definition authority_denies :: http_service where
  "authority_denies p =
     (Resolved \<lparr>status = 200,
                data = JObj [(''hasPermission'', JBool False), (''hasRole'', JBool False)]\<rparr>, 5)"

definition authority_empty_body :: http_service where
  "authority_empty_body p = (Resolved \<lparr>status = 200, data = JObj []\<rparr>, 5)"

definition authority_malformed :: http_service where
  "authority_malformed p = (Resolved \<lparr>status = 200, data = JStr ''<html>oops</html>''\<rparr>, 5)"

text \<open>Requests: one with all three context headers, one without \<^verbatim>\<open>x-org-id\<close>, one
  whose \<^verbatim>\<open>x-org-id\<close> is blank, and one without \<^verbatim>\<open>x-org-id\<close> whose user has an empty
  string as its subject.\<close>

definition org_ctx :: access_context where
  "org_ctx = \<lparr>orgId = ''org1'', workspaceId = Some ''w1'', objectId = Some ''o1'',
              objectType = None\<rparr>"

definition req_org1 :: request where
  "req_org1 = \<lparr>headers = [''x-org-id'' \<mapsto> ''org1'', ''x-workspace-id'' \<mapsto> ''w1'',
                           ''x-object-id'' \<mapsto> ''o1''],
               req_user = Some alice\<rparr>"

definition req_no_org :: request where
  "req_no_org = \<lparr>headers = Map.empty, req_user = Some alice\<rparr>"

definition req_blank_org :: request where
  "req_blank_org = \<lparr>headers = [''x-org-id'' \<mapsto> [CHR 0x20, CHR 0x09, CHR 0x20]],
                    req_user = Some alice\<rparr>"

definition nameless :: user where
  "nameless = \<lparr>sub = JStr [], role = JUndefined, permissions = JUndefined,
               accessToken = ''T1''\<rparr>"

definition req_empty_sub :: request where
  "req_empty_sub = \<lparr>headers = Map.empty, req_user = Some nameless\<rparr>"

text \<open>A request that no \<^verbatim>\<open>AuthGuard\<close> has attached a user to.\<close>

definition req_no_user :: request where
  "req_no_user = \<lparr>headers = Map.empty, req_user = None\<rparr>"

text \<open>The user that the introspection body \<^verbatim>\<open>{active: true}\<close> gives for the token
  \<^verbatim>\<open>T1\<close>, and an authority that answers with an empty subject.\<close>

definition anonymous :: user where
  "anonymous = \<lparr>sub = JUndefined, role = JUndefined, permissions = JUndefined,
                accessToken = ''T1''\<rparr>"

definition authority_empty_sub :: http_service where
  "authority_empty_sub p =
     (Resolved \<lparr>status = 200, data = JObj [(''active'', JBool True), (''sub'', JStr [])]\<rparr>, 5)"

text \<open>An authority whose decision fields are the string \<^verbatim>\<open>'false'\<close> instead of a
  boolean, and two requests that name an organisation but carry no user, or a user whose
  subject is the empty string.\<close>

definition authority_string_false :: http_service where
  "authority_string_false p =
     (Resolved \<lparr>status = 200,
                data = JObj [(''hasPermission'', JStr ''false''), (''hasRole'', JStr ''false'')]\<rparr>, 5)"

definition req_org_no_user :: request where
  "req_org_no_user = \<lparr>headers = [''x-org-id'' \<mapsto> ''org1''], req_user = None\<rparr>"

definition req_org_empty_sub :: request where
  "req_org_empty_sub = \<lparr>headers = [''x-org-id'' \<mapsto> ''org1''], req_user = Some nameless\<rparr>"

text \<open>The production process after \<^verbatim>\<open>T1\<close> was validated against
  \<open>authority_ok\<close>: 5 ms later, one POST issued, one entry that expires at 31005.\<close>

definition prod_sys_T1 :: sys where
  "prod_sys_T1 =
     \<lparr>env = [''NODE_ENV'' \<mapsto> ''production''], clock = 1005,
      tokenCache = [''T1'' \<mapsto> \<lparr>cached_user = alice, expiresAt = 31005\<rparr>],
      posts = [\<lparr>url = ''http://core-service:3000/auth/introspect'',
                body = IntrospectPayload ''T1'', authorization = None\<rparr>]\<rparr>"

section \<open>Auxiliary facts\<close>

lemma http_post_eq: "http p = (r, d) \<Longrightarrow> http_post http p s = (r, awaited s p d)"
  by (simp add: http_post_def awaited_def)

lemma isDevEnv_cong: "env s' = env s \<Longrightarrow> isDevEnv s' = isDevEnv s"
  by (simp add: isDevEnv_def env_or_def)

lemma isDevEnv_awaited [simp]: "isDevEnv (awaited s p d) = isDevEnv s"
  by (rule isDevEnv_cong) (simp add: awaited_def)

lemma validateToken_hit:
  "cache_lookup s token = Some u \<Longrightarrow> validateToken http token s = (Inr u, s)"
  by (simp add: validateToken_def)

lemma validateToken_rejected:
  "cache_lookup s token = None \<Longrightarrow> http (introspect_request s token) = (Rejected e, d) \<Longrightarrow>
   validateToken http token s =
     (Inl (validateToken_catch e), awaited s (introspect_request s token) d)"
  by (simp add: validateToken_def http_post_eq)

lemma validateToken_inactive:
  "cache_lookup s token = None \<Longrightarrow> http (introspect_request s token) = (Resolved r, d) \<Longrightarrow>
   \<not> truthy (get_prop (data r) ''active'') \<Longrightarrow>
   validateToken http token s =
     (Inl (UnauthorizedException ''Invalid token''), awaited s (introspect_request s token) d)"
  by (simp add: validateToken_def http_post_eq validateToken_catch_def)

lemma validateToken_active:
  "cache_lookup s token = None \<Longrightarrow> http (introspect_request s token) = (Resolved r, d) \<Longrightarrow>
   truthy (get_prop (data r) ''active'') \<Longrightarrow>
   validateToken http token s =
     (Inr (introspected_user r token),
      if isDevEnv s then awaited s (introspect_request s token) d
      else (awaited s (introspect_request s token) d)
             \<lparr>tokenCache := (tokenCache s)
                (token \<mapsto> \<lparr>cached_user = introspected_user r token,
                            expiresAt = clock s + int d + INTROSPECTION_TTL_MS\<rparr>)\<rparr>)"
  by (simp add: validateToken_def http_post_eq introspected_user_def Let_def)
     (simp add: awaited_def)

text \<open>A call that misses the cache issues exactly one POST, the introspection request.\<close>

lemma validateToken_miss_posts:
  assumes "cache_lookup s token = None"
  shows "posts (snd (validateToken http token s)) = posts s @ [introspect_request s token]"
proof (cases "http (introspect_request s token)")
  case (Pair res d)
  show ?thesis
  proof (cases res)
    case (Rejected e)
    with Pair assms show ?thesis by (simp add: validateToken_rejected awaited_def)
  next
    case (Resolved r)
    with Pair assms show ?thesis
      by (cases "truthy (get_prop (data r) ''active'')")
         (simp_all add: validateToken_inactive validateToken_active awaited_def)
  qed
qed

lemma validateToken_env: "env (snd (validateToken http token s)) = env s"
proof (cases "cache_lookup s token")
  case (Some u)
  then show ?thesis by (simp add: validateToken_hit)
next
  case None
  show ?thesis
  proof (cases "http (introspect_request s token)")
    case (Pair res d)
    show ?thesis
    proof (cases res)
      case (Rejected e)
      with Pair None show ?thesis by (simp add: validateToken_rejected awaited_def)
    next
      case (Resolved r)
      with Pair None show ?thesis
        by (cases "truthy (get_prop (data r) ''active'')")
           (simp_all add: validateToken_inactive validateToken_active awaited_def)
    qed
  qed
qed

text \<open>A call that fails was not served from the cache and wrote nothing to it.\<close>

lemma validateToken_failure_cache:
  assumes "validateToken http token s = (Inl e, s1)"
  shows "tokenCache s1 = tokenCache s \<and> cache_lookup s token = None"
proof (cases "cache_lookup s token")
  case (Some u)
  with assms show ?thesis by (simp add: validateToken_hit)
next
  case None
  show ?thesis
  proof (cases "http (introspect_request s token)")
    case (Pair res d)
    show ?thesis
    proof (cases res)
      case (Rejected e')
      with Pair None assms show ?thesis by (auto simp: validateToken_rejected awaited_def)
    next
      case (Resolved r)
      with Pair None assms show ?thesis
        by (cases "truthy (get_prop (data r) ''active'')")
           (auto simp: validateToken_inactive validateToken_active awaited_def)
    qed
  qed
qed

text \<open>What a successful call that went to the authority did.\<close>

lemma validateToken_success_miss:
  assumes "cache_lookup s token = None" "validateToken http token s = (Inr u, s1)"
  shows "\<exists>r d. http (introspect_request s token) = (Resolved r, d)
           \<and> truthy (get_prop (data r) ''active'') \<and> u = introspected_user r token
           \<and> clock s1 = clock s + int d \<and> env s1 = env s
           \<and> (\<not> isDevEnv s \<longrightarrow> tokenCache s1 = (tokenCache s)
                 (token \<mapsto> \<lparr>cached_user = u, expiresAt = clock s1 + INTROSPECTION_TTL_MS\<rparr>))
           \<and> (isDevEnv s \<longrightarrow> tokenCache s1 = tokenCache s)"
proof (cases "http (introspect_request s token)")
  case (Pair res d)
  show ?thesis
  proof (cases res)
    case (Rejected e')
    with Pair assms show ?thesis by (simp add: validateToken_rejected)
  next
    case (Resolved r)
    with Pair assms show ?thesis
      by (cases "truthy (get_prop (data r) ''active'')")
         (auto simp: validateToken_inactive validateToken_active awaited_def)
  qed
qed

lemma prod_not_dev: "\<not> isDevEnv prod_sys"
  by (simp add: isDevEnv_def prod_sys_def env_or_def toLowerCase_def lower_char_def)

lemma prod_T1_not_dev: "\<not> isDevEnv prod_sys_T1"
  by (simp add: isDevEnv_def prod_sys_T1_def env_or_def toLowerCase_def lower_char_def)


lemma prod_miss: "cache_lookup prod_sys token = None"
  by (simp add: cache_lookup_def prod_sys_def)

lemma validate_T1_prod: "validateToken authority_ok ''T1'' prod_sys = (Inr alice, prod_sys_T1)"
proof -
  have "authority_ok (introspect_request prod_sys ''T1'')
          = (Resolved \<lparr>status = 200,
               data = JObj [(''active'', JBool True), (''sub'', JStr ''u1''), (''role'', JStr ''r''),
                            (''permissions'', JArr [JStr ''p1''])]\<rparr>, 5)"
    by (simp add: authority_ok_def)
  from validateToken_active [where http = authority_ok, OF prod_miss [of "''T1''"] this] prod_not_dev
  show ?thesis
    by (simp add: introspected_user_def alice_def awaited_def introspect_request_def env_or_def
          prod_sys_def prod_sys_T1_def INTROSPECTION_TTL_MS_def)
qed

section \<open>Token validation: classification of failures\<close>

text \<open>
  C1. A call of \<^verbatim>\<open>validateToken\<close> that is not served from the cache fails with
  \<^verbatim>\<open>ServiceUnavailableException\<close> when the introspection call is rejected without a
  response (a plain error such as a refused connection, or an axios error that carries no
  response, as a timeout does) or with a response of status 500 or more; it fails with
  \<^verbatim>\<open>UnauthorizedException\<close> when the call is rejected with a response of any other
  error status (1 to 499).
\<close>

theorem validateToken_error_classification:
  assumes "cache_lookup s token = None"
  shows "(http (introspect_request s token) = (Rejected (Error m), d) \<longrightarrow>
            fst (validateToken http token s)
              = Inl (ServiceUnavailableException ''Auth service unavailable''))
       \<and> (http (introspect_request s token) = (Rejected (AxiosError None m), d) \<longrightarrow>
            fst (validateToken http token s)
              = Inl (ServiceUnavailableException ''Auth service unavailable''))
       \<and> (http (introspect_request s token) = (Rejected (AxiosError (Some r) m), d)
            \<and> 500 \<le> status r \<longrightarrow>
            fst (validateToken http token s)
              = Inl (ServiceUnavailableException ''Auth service unavailable''))
       \<and> (http (introspect_request s token) = (Rejected (AxiosError (Some r) m), d)
            \<and> 0 < status r \<and> status r < 500 \<longrightarrow>
            fst (validateToken http token s)
              = Inl (UnauthorizedException ''Access denied - Token verification failed''))"
  using assms by (auto simp: validateToken_rejected validateToken_catch_def)

theorem validateToken_error_classification_witness:
  "cache_lookup prod_sys ''T3'' = None
   \<and> fst (validateToken authority_unreachable ''T3'' prod_sys)
       = Inl (ServiceUnavailableException ''Auth service unavailable'')
   \<and> fst (validateToken authority_timeout ''T3'' prod_sys)
       = Inl (ServiceUnavailableException ''Auth service unavailable'')
   \<and> fst (validateToken authority_503_inactive ''T3'' prod_sys)
       = Inl (ServiceUnavailableException ''Auth service unavailable'')
   \<and> fst (validateToken authority_401 ''T3'' prod_sys)
       = Inl (UnauthorizedException ''Access denied - Token verification failed'')"
  using
    validateToken_error_classification [where s = prod_sys and token = "''T3''"
      and http = authority_unreachable and m = "''ECONNREFUSED''" and d = 1]
    validateToken_error_classification [where s = prod_sys and token = "''T3''"
      and http = authority_timeout and m = "''timeout of 5000ms exceeded''" and d = 5000]
    validateToken_error_classification [where s = prod_sys and token = "''T3''"
      and http = authority_503_inactive and m = "''Request failed with status code 503''"
      and d = 5 and r = "\<lparr>status = 503, data = JObj [(''active'', JBool False)]\<rparr>"]
    validateToken_error_classification [where s = prod_sys and token = "''T3''"
      and http = authority_401 and m = "''Request failed with status code 401''" and d = 5
      and r = "\<lparr>status = 401, data = JNull\<rparr>"]
  by (simp add: prod_miss authority_unreachable_def authority_timeout_def
        authority_503_inactive_def authority_401_def)

section \<open>The introspection cache\<close>

text \<open>
  C3. Let a token be validated against the authority (not from the cache) in a process
  that is not in development mode, and let the call return the user \<open>u\<close> in the state
  \<open>s1\<close>, so that \<open>clock s1\<close> is the time at which the validation succeeded. In any
  later state of the same process that still holds that entry, a call for the same token
  made before \<open>clock s1 + 30000\<close> returns \<open>u\<close> and leaves the state as it is (no POST
  is issued, whatever the authority would answer); from \<open>clock s1 + 30000\<close> on the
  lookup misses and the call goes to the authority.
\<close>

theorem cached_validation_within_ttl:
  assumes prod: "\<not> isDevEnv s"
      and miss: "cache_lookup s token = None"
      and ok: "validateToken http token s = (Inr u, s1)"
      and env2: "env s2 = env s1"
      and cache2: "tokenCache s2 token = tokenCache s1 token"
  shows "(clock s2 < clock s1 + 30000 \<longrightarrow> validateToken http2 token s2 = (Inr u, s2))
       \<and> (clock s1 + 30000 \<le> clock s2 \<longrightarrow>
            cache_lookup s2 token = None
            \<and> posts (snd (validateToken http2 token s2))
                = posts s2 @ [introspect_request s2 token])"
proof -
  from validateToken_success_miss [OF miss ok]
  have e1: "env s1 = env s"
    and st: "\<not> isDevEnv s \<longrightarrow> tokenCache s1 = (tokenCache s)
                 (token \<mapsto> \<lparr>cached_user = u, expiresAt = clock s1 + INTROSPECTION_TTL_MS\<rparr>)"
    by blast+
  from st prod
  have c1: "tokenCache s1 token
              = Some \<lparr>cached_user = u, expiresAt = clock s1 + INTROSPECTION_TTL_MS\<rparr>"
    by simp
  from env2 e1 have "env s2 = env s" by simp
  from isDevEnv_cong [OF this] prod have prod2: "\<not> isDevEnv s2" by simp
  have hit: "clock s2 < clock s1 + 30000 \<Longrightarrow> cache_lookup s2 token = Some u"
    using prod2 cache2 c1 by (simp add: cache_lookup_def INTROSPECTION_TTL_MS_def)
  have exp: "clock s1 + 30000 \<le> clock s2 \<Longrightarrow> cache_lookup s2 token = None"
    using prod2 cache2 c1 by (simp add: cache_lookup_def INTROSPECTION_TTL_MS_def)
  show ?thesis
  proof (intro conjI impI)
    assume "clock s2 < clock s1 + 30000"
    then show "validateToken http2 token s2 = (Inr u, s2)"
      by (rule validateToken_hit [OF hit])
  next
    assume "clock s1 + 30000 \<le> clock s2"
    then show "cache_lookup s2 token = None" by (rule exp)
  next
    assume "clock s1 + 30000 \<le> clock s2"
    then show "posts (snd (validateToken http2 token s2))
                 = posts s2 @ [introspect_request s2 token]"
      by (rule validateToken_miss_posts [OF exp])
  qed
qed

theorem cached_validation_within_ttl_witness:
  "\<not> isDevEnv prod_sys \<and> cache_lookup prod_sys ''T1'' = None
   \<and> validateToken authority_ok ''T1'' prod_sys = (Inr alice, prod_sys_T1)
   \<and> validateToken authority_unreachable ''T1'' (prod_sys_T1\<lparr>clock := 31004\<rparr>)
       = (Inr alice, prod_sys_T1\<lparr>clock := 31004\<rparr>)
   \<and> cache_lookup (prod_sys_T1\<lparr>clock := 31005\<rparr>) ''T1'' = None
   \<and> posts (snd (validateToken authority_unreachable ''T1'' (prod_sys_T1\<lparr>clock := 31005\<rparr>)))
       = posts prod_sys_T1 @ [introspect_request prod_sys_T1 ''T1'']"
  using
    cached_validation_within_ttl [OF prod_not_dev prod_miss validate_T1_prod,
      where ?s2.0 = "prod_sys_T1\<lparr>clock := 31004\<rparr>" and ?http2.0 = authority_unreachable]
    cached_validation_within_ttl [OF prod_not_dev prod_miss validate_T1_prod,
      where ?s2.0 = "prod_sys_T1\<lparr>clock := 31005\<rparr>" and ?http2.0 = authority_unreachable]
  by (simp add: prod_not_dev prod_miss validate_T1_prod)
     (simp add: prod_sys_T1_def introspect_request_def env_or_def)



text \<open>
  C10. A call of \<^verbatim>\<open>validateToken\<close> that fails leaves the cache as it was. In any later
  state of the same process in which the entry of that token is still what it was, a call
  for the same token misses the cache and issues the introspection POST.
\<close>

theorem failed_validation_keeps_cache:
  assumes "validateToken http token s = (Inl e, s1)"
  shows "tokenCache s1 = tokenCache s
       \<and> (env s2 = env s1 \<and> tokenCache s2 token = tokenCache s1 token \<and> clock s \<le> clock s2 \<longrightarrow>
            cache_lookup s2 token = None
            \<and> posts (snd (validateToken http2 token s2))
                = posts s2 @ [introspect_request s2 token])"
proof -
  from validateToken_failure_cache [OF assms]
  have same: "tokenCache s1 = tokenCache s" and miss: "cache_lookup s token = None" by simp_all
  have e1: "env s1 = env s" using validateToken_env [of http token s] assms by simp
  have later: "cache_lookup s2 token = None"
    if "env s2 = env s1" "tokenCache s2 token = tokenCache s1 token" "clock s \<le> clock s2"
  proof -
    from that(1) e1 have "env s2 = env s" by simp
    then have dev: "isDevEnv s2 = isDevEnv s" by (rule isDevEnv_cong)
    from that(2) same have c: "tokenCache s2 token = tokenCache s token" by simp
    show ?thesis
    proof (cases "isDevEnv s")
      case True
      with dev show ?thesis by (simp add: cache_lookup_def)
    next
      case False
      show ?thesis
      proof (cases "tokenCache s token")
        case None
        with c show ?thesis by (simp add: cache_lookup_def)
      next
        case (Some entry)
        with miss False have "expiresAt entry \<le> clock s"
          by (simp add: cache_lookup_def split: if_splits)
        with that(3) Some c show ?thesis by (simp add: cache_lookup_def)
      qed
    qed
  qed
  show ?thesis
  proof (intro conjI impI)
    show "tokenCache s1 = tokenCache s" by (rule same)
  next
    assume "env s2 = env s1 \<and> tokenCache s2 token = tokenCache s1 token \<and> clock s \<le> clock s2"
    then show "cache_lookup s2 token = None" using later by blast
  next
    assume "env s2 = env s1 \<and> tokenCache s2 token = tokenCache s1 token \<and> clock s \<le> clock s2"
    then have "cache_lookup s2 token = None" using later by blast
    then show "posts (snd (validateToken http2 token s2))
                 = posts s2 @ [introspect_request s2 token]"
      by (rule validateToken_miss_posts)
  qed
qed

lemma validate_inactive_prod:
  "validateToken authority_inactive ''T2'' prod_sys
     = (Inl (UnauthorizedException ''Invalid token''),
        awaited prod_sys (introspect_request prod_sys ''T2'') 5)"
proof -
  have "authority_inactive (introspect_request prod_sys ''T2'')
          = (Resolved \<lparr>status = 200, data = JObj [(''active'', JBool False)]\<rparr>, 5)"
    by (simp add: authority_inactive_def)
  from validateToken_inactive [where http = authority_inactive, OF prod_miss [of "''T2''"] this]
  show ?thesis by simp
qed

theorem failed_validation_keeps_cache_witness:
  "validateToken authority_inactive ''T2'' prod_sys
     = (Inl (UnauthorizedException ''Invalid token''),
        awaited prod_sys (introspect_request prod_sys ''T2'') 5)
   \<and> tokenCache (awaited prod_sys (introspect_request prod_sys ''T2'') 5) = tokenCache prod_sys
   \<and> clock prod_sys \<le> clock (awaited prod_sys (introspect_request prod_sys ''T2'') 5)
   \<and> cache_lookup (awaited prod_sys (introspect_request prod_sys ''T2'') 5) ''T2'' = None
   \<and> posts (snd (validateToken authority_ok ''T2''
               (awaited prod_sys (introspect_request prod_sys ''T2'') 5)))
       = [introspect_request prod_sys ''T2'', introspect_request prod_sys ''T2'']"
  using failed_validation_keeps_cache [OF validate_inactive_prod,
      where ?s2.0 = "awaited prod_sys (introspect_request prod_sys ''T2'') 5"
        and ?http2.0 = authority_ok]
  by (simp add: validate_inactive_prod)
     (simp add: awaited_def prod_sys_def introspect_request_def env_or_def)

section \<open>Access checks\<close>

lemma checkPermission_rejected:
  "http (permission_request s u xs mm ctx) = (Rejected e, d) \<Longrightarrow>
   checkPermission http u xs mm ctx s
     = (check_catch e, awaited s (permission_request s u xs mm ctx) d)"
  by (simp add: checkPermission_def http_post_eq)

lemma checkPermission_resolved:
  "http (permission_request s u xs mm ctx) = (Resolved r, d) \<Longrightarrow>
   checkPermission http u xs mm ctx s
     = (Inr (truthy (get_prop (data r) ''hasPermission'')),
        awaited s (permission_request s u xs mm ctx) d)"
  by (simp add: checkPermission_def http_post_eq)

lemma checkRole_rejected:
  "http (role_request s u xs mm ctx) = (Rejected e, d) \<Longrightarrow>
   checkRole http u xs mm ctx s = (check_catch e, awaited s (role_request s u xs mm ctx) d)"
  by (simp add: checkRole_def http_post_eq)

lemma checkRole_resolved:
  "http (role_request s u xs mm ctx) = (Resolved r, d) \<Longrightarrow>
   checkRole http u xs mm ctx s
     = (Inr (truthy (get_prop (data r) ''hasRole'')), awaited s (role_request s u xs mm ctx) d)"
  by (simp add: checkRole_def http_post_eq)

lemma checkPermission_posts:
  "posts (snd (checkPermission http u xs mm ctx s)) = posts s @ [permission_request s u xs mm ctx]"
  by (cases "http (permission_request s u xs mm ctx)")
     (simp add: checkPermission_def http_post_def split: http_result.splits)

lemma checkRole_posts:
  "posts (snd (checkRole http u xs mm ctx s)) = posts s @ [role_request s u xs mm ctx]"
  by (cases "http (role_request s u xs mm ctx)")
     (simp add: checkRole_def http_post_def split: http_result.splits)

lemma check_catch_unavailable:
  "e = Error m \<or> e = AxiosError None m \<or> (e = AxiosError (Some r) m \<and> (status r = 0 \<or> 500 \<le> status r))
   \<Longrightarrow> check_catch e = Inl (ServiceUnavailableException ''Authorization service unavailable'')"
  by (auto simp: check_catch_def)

text \<open>The guards once the requirement, the user and the organisation are there.\<close>

lemma PermissionGuard_reaches_check:
  assumes "required_list meta = Some xs" "xs \<noteq> []" "req_user req = Some u" "truthy (sub u)"
    "orgId (guard_context req) \<noteq> []"
  shows "PermissionGuard_canActivate check meta mmeta req s =
     (case check u xs (match_or_all mmeta) (guard_context req) s of
        (Inr b, s1) \<Rightarrow> if b then (Inr True, s1) else (Inl (ForbiddenException ''Access denied''), s1)
      | (Inl e, s1) \<Rightarrow> (Inl (guard_catch e), s1))"
  using assms
  by (simp add: PermissionGuard_canActivate_def guard_catch_def split: prod.splits sum.splits)

lemma RoleGuard_reaches_check:
  assumes "required_list meta = Some xs" "xs \<noteq> []" "req_user req = Some u" "truthy (sub u)"
    "orgId (guard_context req) \<noteq> []"
  shows "RoleGuard_canActivate check meta mmeta req s =
     (case check u xs (match_or_all mmeta) (guard_context req) s of
        (Inr b, s1) \<Rightarrow> if b then (Inr True, s1) else (Inl (ForbiddenException ''Access denied''), s1)
      | (Inl e, s1) \<Rightarrow> (Inl (guard_catch e), s1))"
  using assms
  by (simp add: RoleGuard_canActivate_def guard_catch_def split: prod.splits sum.splits)

text \<open>A blank header trims to the empty string.\<close>

lemma trim_blank:
  assumes "list_all is_ws v"
  shows "trim v = []"
proof -
  from assms have d: "dropWhile is_ws v = []"
    by (simp add: dropWhile_eq_Nil_conv list_all_iff)
  show ?thesis unfolding trim_def d by simp
qed

lemma blank_org_context:
  "orgId (guard_context req) = []" if "org_header_blank req"
proof (cases "headers req ''x-org-id''")
  case None
  have "trim [] = []" by (rule trim_blank) simp
  with None show ?thesis by (simp add: guard_context_def required_header_def)
next
  case (Some v)
  with that have "list_all is_ws v" by (simp add: org_header_blank_def)
  then have "trim v = []" by (rule trim_blank)
  with Some show ?thesis by (simp add: guard_context_def required_header_def)
qed

text \<open>Facts about the concrete requests and users.\<close>

lemma req_org1_context: "guard_context req_org1 = org_ctx"
  by (simp add: guard_context_def req_org1_def org_ctx_def required_header_def optional_header_def
        trim_def is_ws_def)

lemma alice_truthy: "truthy (sub alice)"
  by (simp add: alice_def)

lemma req_org1_user: "req_user req_org1 = Some alice"
  by (simp add: req_org1_def)

lemma org_ctx_org: "orgId org_ctx \<noteq> []"
  by (simp add: org_ctx_def)

lemma required_a: "required_list (MetaList [''a'']) = Some [''a'']"
  by simp

lemma a_nonempty: "[''a''] \<noteq> ([] :: string list)"
  by simp

lemma req_org1_org: "orgId (guard_context req_org1) \<noteq> []"
  by (simp add: req_org1_context org_ctx_org)

text \<open>
  C2. When the POST of \<^verbatim>\<open>checkPermission\<close> or \<^verbatim>\<open>checkRole\<close> is rejected with an error
  that carries no response (a plain error such as a refused connection, an axios error
  without response such as a timeout), or with a response whose status is 0 or at least
  500, the operation fails with
  \<^verbatim>\<open>ServiceUnavailableException('Authorization service unavailable')\<close>; and a guard that
  reached the call (a requirement, a user with a subject and an organisation are there)
  ends exactly as the operation did: the same error, the same state.
\<close>

theorem unavailable_authority_propagates:
  assumes unavailable:
    "e = Error m \<or> e = AxiosError None m
       \<or> (e = AxiosError (Some r) m \<and> (status r = 0 \<or> 500 \<le> status r))"
  shows "(http (permission_request s u xs mm ctx) = (Rejected e, d) \<longrightarrow>
            fst (checkPermission http u xs mm ctx s)
              = Inl (ServiceUnavailableException ''Authorization service unavailable''))
       \<and> (http (role_request s u xs mm ctx) = (Rejected e, d) \<longrightarrow>
            fst (checkRole http u xs mm ctx s)
              = Inl (ServiceUnavailableException ''Authorization service unavailable''))
       \<and> (required_list meta = Some xs \<and> xs \<noteq> [] \<and> req_user req = Some u \<and> truthy (sub u)
            \<and> orgId (guard_context req) \<noteq> []
            \<and> http (permission_request s u xs (match_or_all mmeta) (guard_context req))
                = (Rejected e, d) \<longrightarrow>
            PermissionGuard_canActivate (checkPermission http) meta mmeta req s
              = checkPermission http u xs (match_or_all mmeta) (guard_context req) s)
       \<and> (required_list meta = Some xs \<and> xs \<noteq> [] \<and> req_user req = Some u \<and> truthy (sub u)
            \<and> orgId (guard_context req) \<noteq> []
            \<and> http (role_request s u xs (match_or_all mmeta) (guard_context req))
                = (Rejected e, d) \<longrightarrow>
            RoleGuard_canActivate (checkRole http) meta mmeta req s
              = checkRole http u xs (match_or_all mmeta) (guard_context req) s)"
proof -
  note c = check_catch_unavailable [OF unavailable]
  show ?thesis
  proof (intro conjI impI)
    assume "http (permission_request s u xs mm ctx) = (Rejected e, d)"
    then show "fst (checkPermission http u xs mm ctx s)
              = Inl (ServiceUnavailableException ''Authorization service unavailable'')"
      by (simp add: checkPermission_rejected c)
  next
    assume "http (role_request s u xs mm ctx) = (Rejected e, d)"
    then show "fst (checkRole http u xs mm ctx s)
              = Inl (ServiceUnavailableException ''Authorization service unavailable'')"
      by (simp add: checkRole_rejected c)
  next
    assume a: "required_list meta = Some xs \<and> xs \<noteq> [] \<and> req_user req = Some u \<and> truthy (sub u)
            \<and> orgId (guard_context req) \<noteq> []
            \<and> http (permission_request s u xs (match_or_all mmeta) (guard_context req))
                = (Rejected e, d)"
    then have "checkPermission http u xs (match_or_all mmeta) (guard_context req) s
                 = (Inl (ServiceUnavailableException ''Authorization service unavailable''),
                    awaited s (permission_request s u xs (match_or_all mmeta) (guard_context req)) d)"
      by (simp add: checkPermission_rejected c)
    with a show "PermissionGuard_canActivate (checkPermission http) meta mmeta req s
              = checkPermission http u xs (match_or_all mmeta) (guard_context req) s"
      by (simp add: PermissionGuard_reaches_check guard_catch_def)
  next
    assume a: "required_list meta = Some xs \<and> xs \<noteq> [] \<and> req_user req = Some u \<and> truthy (sub u)
            \<and> orgId (guard_context req) \<noteq> []
            \<and> http (role_request s u xs (match_or_all mmeta) (guard_context req))
                = (Rejected e, d)"
    then have "checkRole http u xs (match_or_all mmeta) (guard_context req) s
                 = (Inl (ServiceUnavailableException ''Authorization service unavailable''),
                    awaited s (role_request s u xs (match_or_all mmeta) (guard_context req)) d)"
      by (simp add: checkRole_rejected c)
    with a show "RoleGuard_canActivate (checkRole http) meta mmeta req s
              = checkRole http u xs (match_or_all mmeta) (guard_context req) s"
      by (simp add: RoleGuard_reaches_check guard_catch_def)
  qed
qed

theorem unavailable_authority_propagates_witness:
  "fst (checkPermission authority_timeout alice [''a''] MatchAny org_ctx prod_sys)
     = Inl (ServiceUnavailableException ''Authorization service unavailable'')
   \<and> fst (checkRole authority_timeout alice [''a''] MatchAny org_ctx prod_sys)
     = Inl (ServiceUnavailableException ''Authorization service unavailable'')
   \<and> PermissionGuard_canActivate (checkPermission authority_timeout) (MetaList [''a''])
        (Some MatchAny) req_org1 prod_sys
     = checkPermission authority_timeout alice [''a''] MatchAny org_ctx prod_sys
   \<and> RoleGuard_canActivate (checkRole authority_timeout) (MetaList [''a''])
        (Some MatchAny) req_org1 prod_sys
     = checkRole authority_timeout alice [''a''] MatchAny org_ctx prod_sys"
  using unavailable_authority_propagates [where e = "AxiosError None ''timeout of 5000ms exceeded''"
      and m = "''timeout of 5000ms exceeded''" and r = "\<lparr>status = 0, data = JNull\<rparr>"
      and http = authority_timeout and s = prod_sys and u = alice and xs = "[''a'']"
      and mm = MatchAny and ctx = org_ctx and d = 5000 and meta = "MetaList [''a'']"
      and mmeta = "Some MatchAny" and req = req_org1]
  by (simp add: req_org1_context alice_truthy req_org1_user org_ctx_org authority_timeout_def)

text \<open>
  C4. When the POST of \<^verbatim>\<open>checkPermission\<close> or \<^verbatim>\<open>checkRole\<close> is rejected with a
  response whose status is an error status below 500 (1 to 499), the operation returns
  \<^verbatim>\<open>false\<close> and raises nothing. When the POST resolves with a response, which is how a
  success status arrives, the operation returns the boolean held by the field
  \<^verbatim>\<open>hasPermission\<close> (or \<^verbatim>\<open>hasRole\<close>) of the body, and \<^verbatim>\<open>false\<close> when the body has
  no such field.
\<close>

theorem check_denial_and_decision:
  "(http (permission_request s u xs mm ctx) = (Rejected (AxiosError (Some r) m), d)
      \<and> 0 < status r \<and> status r < 500 \<longrightarrow>
      fst (checkPermission http u xs mm ctx s) = Inr False)
   \<and> (http (role_request s u xs mm ctx) = (Rejected (AxiosError (Some r) m), d)
      \<and> 0 < status r \<and> status r < 500 \<longrightarrow>
      fst (checkRole http u xs mm ctx s) = Inr False)
   \<and> (http (permission_request s u xs mm ctx) = (Resolved r, d)
      \<and> get_prop (data r) ''hasPermission'' = JBool b \<longrightarrow>
      fst (checkPermission http u xs mm ctx s) = Inr b)
   \<and> (http (role_request s u xs mm ctx) = (Resolved r, d)
      \<and> get_prop (data r) ''hasRole'' = JBool b \<longrightarrow>
      fst (checkRole http u xs mm ctx s) = Inr b)
   \<and> (http (permission_request s u xs mm ctx) = (Resolved r, d)
      \<and> get_prop (data r) ''hasPermission'' = JUndefined \<longrightarrow>
      fst (checkPermission http u xs mm ctx s) = Inr False)
   \<and> (http (role_request s u xs mm ctx) = (Resolved r, d)
      \<and> get_prop (data r) ''hasRole'' = JUndefined \<longrightarrow>
      fst (checkRole http u xs mm ctx s) = Inr False)"
  by (auto simp: checkPermission_rejected checkRole_rejected checkPermission_resolved
        checkRole_resolved check_catch_def)

theorem check_denial_and_decision_witness:
  "fst (checkPermission authority_403_inactive alice [''a'', ''b''] MatchAll org_ctx prod_sys) = Inr False
   \<and> fst (checkRole authority_403_inactive alice [''a'', ''b''] MatchAll org_ctx prod_sys) = Inr False
   \<and> fst (checkPermission authority_grants alice [''a'', ''b''] MatchAll org_ctx prod_sys) = Inr True
   \<and> fst (checkRole authority_grants alice [''a'', ''b''] MatchAll org_ctx prod_sys) = Inr True
   \<and> fst (checkPermission authority_denies alice [''a'', ''b''] MatchAll org_ctx prod_sys) = Inr False
   \<and> fst (checkRole authority_denies alice [''a'', ''b''] MatchAll org_ctx prod_sys) = Inr False
   \<and> fst (checkPermission authority_empty_body alice [''a'', ''b''] MatchAll org_ctx prod_sys) = Inr False
   \<and> fst (checkRole authority_empty_body alice [''a'', ''b''] MatchAll org_ctx prod_sys) = Inr False"
  using
    check_denial_and_decision [where http = authority_403_inactive and s = prod_sys and u = alice
      and xs = "[''a'', ''b'']" and mm = MatchAll and ctx = org_ctx and d = 5
      and m = "''Request failed with status code 403''"
      and r = "\<lparr>status = 403, data = JObj [(''active'', JBool False)]\<rparr>"]
    check_denial_and_decision [where http = authority_grants and s = prod_sys and u = alice
      and xs = "[''a'', ''b'']" and mm = MatchAll and ctx = org_ctx and d = 5 and b = True
      and r = "\<lparr>status = 200,
                data = JObj [(''hasPermission'', JBool True), (''hasRole'', JBool True)]\<rparr>"]
    check_denial_and_decision [where http = authority_denies and s = prod_sys and u = alice
      and xs = "[''a'', ''b'']" and mm = MatchAll and ctx = org_ctx and d = 5 and b = False
      and r = "\<lparr>status = 200,
                data = JObj [(''hasPermission'', JBool False), (''hasRole'', JBool False)]\<rparr>"]
    check_denial_and_decision [where http = authority_empty_body and s = prod_sys and u = alice
      and xs = "[''a'', ''b'']" and mm = MatchAll and ctx = org_ctx and d = 5
      and r = "\<lparr>status = 200, data = JObj []\<rparr>"]
  by (simp add: authority_403_inactive_def authority_grants_def authority_denies_def
        authority_empty_body_def)

text \<open>
  The decision is read with \<^verbatim>\<open>Boolean(...)\<close>: a malformed body whose decision field is
  the string \<^verbatim>\<open>'false'\<close> is truthy, and both guards let the request pass.
\<close>

theorem malformed_decision_admitted_counterexample:
  "authority_string_false (permission_request prod_sys alice [''a''] MatchAll org_ctx)
     = (Resolved \<lparr>status = 200,
          data = JObj [(''hasPermission'', JStr ''false''), (''hasRole'', JStr ''false'')]\<rparr>, 5)
   \<and> fst (PermissionGuard_canActivate (checkPermission authority_string_false) (MetaList [''a''])
            None req_org1 prod_sys) = Inr True
   \<and> fst (RoleGuard_canActivate (checkRole authority_string_false) (MetaList [''a''])
            None req_org1 prod_sys) = Inr True"
proof -
  have p: "checkPermission authority_string_false alice [''a''] MatchAll org_ctx prod_sys
             = (Inr True, awaited prod_sys (permission_request prod_sys alice [''a''] MatchAll org_ctx) 5)"
    by (simp add: checkPermission_resolved [where d = 5 and r = "\<lparr>status = 200,
          data = JObj [(''hasPermission'', JStr ''false''), (''hasRole'', JStr ''false'')]\<rparr>"]
          authority_string_false_def)
  have r: "checkRole authority_string_false alice [''a''] MatchAll org_ctx prod_sys
             = (Inr True, awaited prod_sys (role_request prod_sys alice [''a''] MatchAll org_ctx) 5)"
    by (simp add: checkRole_resolved [where d = 5 and r = "\<lparr>status = 200,
          data = JObj [(''hasPermission'', JStr ''false''), (''hasRole'', JStr ''false'')]\<rparr>"]
          authority_string_false_def)
  have m: "required_list (MetaList [''a'']) = Some [''a'']" by simp
  show ?thesis
    using PermissionGuard_reaches_check [OF m _ req_org1_user alice_truthy,
            where check = "checkPermission authority_string_false" and mmeta = None and s = prod_sys]
          RoleGuard_reaches_check [OF m _ req_org1_user alice_truthy,
            where check = "checkRole authority_string_false" and mmeta = None and s = prod_sys]
    by (simp add: req_org1_context org_ctx_org p r authority_string_false_def)
qed

text \<open>
  C5, amended. Let a guard reach the call of its validator method (a requirement, a user
  with a subject and an organisation are there). With the methods of
  \<^verbatim>\<open>AuthValidatorService\<close>: when the POST resolves, the guard lets the request pass if the
  decision field of the body is truthy and raises \<^verbatim>\<open>ForbiddenException('Access denied')\<close>
  if it is falsy or absent (as it is in a body that is no object); when the POST is
  rejected with a response status from 1 to 499 the guard raises the same
  \<^verbatim>\<open>ForbiddenException\<close>; when it is rejected without a status, with status 0 or with a
  status of at least 500 the guard raises \<^verbatim>\<open>ServiceUnavailableException\<close>. With any
  validator method: an error that is not a \<^verbatim>\<open>ServiceUnavailableException\<close> becomes
  \<^verbatim>\<open>ForbiddenException('Access denied')\<close>, and a \<^verbatim>\<open>ServiceUnavailableException\<close> is
  raised again as it is. The guard lets a request pass only when the POST resolved with a
  truthy decision field.
\<close>

theorem guard_outcome_of_access_check:
  assumes "required_list meta = Some xs" "xs \<noteq> []" "req_user req = Some u" "truthy (sub u)"
      "orgId (guard_context req) \<noteq> []"
  shows "(http (permission_request s u xs (match_or_all mmeta) (guard_context req)) = (Resolved r, d)
            \<longrightarrow> PermissionGuard_canActivate (checkPermission http) meta mmeta req s
              = (if truthy (get_prop (data r) ''hasPermission'') then Inr True
                 else Inl (ForbiddenException ''Access denied''),
                 awaited s (permission_request s u xs (match_or_all mmeta) (guard_context req)) d))
       \<and> (http (role_request s u xs (match_or_all mmeta) (guard_context req)) = (Resolved r, d)
            \<longrightarrow> RoleGuard_canActivate (checkRole http) meta mmeta req s
              = (if truthy (get_prop (data r) ''hasRole'') then Inr True
                 else Inl (ForbiddenException ''Access denied''),
                 awaited s (role_request s u xs (match_or_all mmeta) (guard_context req)) d))
       \<and> (http (permission_request s u xs (match_or_all mmeta) (guard_context req)) = (Rejected e, d)
            \<and> response_status e = Some n \<and> 0 < n \<and> n < 500
            \<longrightarrow> PermissionGuard_canActivate (checkPermission http) meta mmeta req s
              = (Inl (ForbiddenException ''Access denied''),
                 awaited s (permission_request s u xs (match_or_all mmeta) (guard_context req)) d))
       \<and> (http (role_request s u xs (match_or_all mmeta) (guard_context req)) = (Rejected e, d)
            \<and> response_status e = Some n \<and> 0 < n \<and> n < 500
            \<longrightarrow> RoleGuard_canActivate (checkRole http) meta mmeta req s
              = (Inl (ForbiddenException ''Access denied''),
                 awaited s (role_request s u xs (match_or_all mmeta) (guard_context req)) d))
       \<and> (http (permission_request s u xs (match_or_all mmeta) (guard_context req)) = (Rejected e, d)
            \<and> (response_status e = None \<or> response_status e = Some n \<and> (n = 0 \<or> 500 \<le> n))
            \<longrightarrow> PermissionGuard_canActivate (checkPermission http) meta mmeta req s
              = (Inl (ServiceUnavailableException ''Authorization service unavailable''),
                 awaited s (permission_request s u xs (match_or_all mmeta) (guard_context req)) d))
       \<and> (http (role_request s u xs (match_or_all mmeta) (guard_context req)) = (Rejected e, d)
            \<and> (response_status e = None \<or> response_status e = Some n \<and> (n = 0 \<or> 500 \<le> n))
            \<longrightarrow> RoleGuard_canActivate (checkRole http) meta mmeta req s
              = (Inl (ServiceUnavailableException ''Authorization service unavailable''),
                 awaited s (role_request s u xs (match_or_all mmeta) (guard_context req)) d))
       \<and> (check u xs (match_or_all mmeta) (guard_context req) s = (Inl e, s1)
            \<and> \<not> instanceof_ServiceUnavailable e
            \<longrightarrow> PermissionGuard_canActivate check meta mmeta req s
                  = (Inl (ForbiddenException ''Access denied''), s1)
                \<and> RoleGuard_canActivate check meta mmeta req s
                  = (Inl (ForbiddenException ''Access denied''), s1))
       \<and> (check u xs (match_or_all mmeta) (guard_context req) s = (Inl e, s1)
            \<and> instanceof_ServiceUnavailable e
            \<longrightarrow> PermissionGuard_canActivate check meta mmeta req s = (Inl e, s1)
                \<and> RoleGuard_canActivate check meta mmeta req s = (Inl e, s1))
       \<and> (fst (PermissionGuard_canActivate (checkPermission http) meta mmeta req s) = Inr True
            \<longrightarrow> (\<exists>r' d'. http (permission_request s u xs (match_or_all mmeta) (guard_context req))
                          = (Resolved r', d')
                        \<and> truthy (get_prop (data r') ''hasPermission'')))
       \<and> (fst (RoleGuard_canActivate (checkRole http) meta mmeta req s) = Inr True
            \<longrightarrow> (\<exists>r' d'. http (role_request s u xs (match_or_all mmeta) (guard_context req))
                          = (Resolved r', d')
                        \<and> truthy (get_prop (data r') ''hasRole'')))"
proof -
  note P = PermissionGuard_reaches_check [OF assms]
  note R = RoleGuard_reaches_check [OF assms]
  show ?thesis
  proof (intro conjI impI)
    assume "http (permission_request s u xs (match_or_all mmeta) (guard_context req)) = (Resolved r, d)"
    then show "PermissionGuard_canActivate (checkPermission http) meta mmeta req s
              = (if truthy (get_prop (data r) ''hasPermission'') then Inr True
                 else Inl (ForbiddenException ''Access denied''),
                 awaited s (permission_request s u xs (match_or_all mmeta) (guard_context req)) d)"
      by (simp add: P checkPermission_resolved)
  next
    assume "http (role_request s u xs (match_or_all mmeta) (guard_context req)) = (Resolved r, d)"
    then show "RoleGuard_canActivate (checkRole http) meta mmeta req s
              = (if truthy (get_prop (data r) ''hasRole'') then Inr True
                 else Inl (ForbiddenException ''Access denied''),
                 awaited s (role_request s u xs (match_or_all mmeta) (guard_context req)) d)"
      by (simp add: R checkRole_resolved)
  next
    assume "http (permission_request s u xs (match_or_all mmeta) (guard_context req)) = (Rejected e, d)
            \<and> response_status e = Some n \<and> 0 < n \<and> n < 500"
    then show "PermissionGuard_canActivate (checkPermission http) meta mmeta req s
              = (Inl (ForbiddenException ''Access denied''),
                 awaited s (permission_request s u xs (match_or_all mmeta) (guard_context req)) d)"
      by (simp add: P checkPermission_rejected check_catch_def)
  next
    assume "http (role_request s u xs (match_or_all mmeta) (guard_context req)) = (Rejected e, d)
            \<and> response_status e = Some n \<and> 0 < n \<and> n < 500"
    then show "RoleGuard_canActivate (checkRole http) meta mmeta req s
              = (Inl (ForbiddenException ''Access denied''),
                 awaited s (role_request s u xs (match_or_all mmeta) (guard_context req)) d)"
      by (simp add: R checkRole_rejected check_catch_def)
  next
    assume "http (permission_request s u xs (match_or_all mmeta) (guard_context req)) = (Rejected e, d)
            \<and> (response_status e = None \<or> response_status e = Some n \<and> (n = 0 \<or> 500 \<le> n))"
    then show "PermissionGuard_canActivate (checkPermission http) meta mmeta req s
              = (Inl (ServiceUnavailableException ''Authorization service unavailable''),
                 awaited s (permission_request s u xs (match_or_all mmeta) (guard_context req)) d)"
      by (auto simp: P checkPermission_rejected check_catch_def guard_catch_def)
  next
    assume "http (role_request s u xs (match_or_all mmeta) (guard_context req)) = (Rejected e, d)
            \<and> (response_status e = None \<or> response_status e = Some n \<and> (n = 0 \<or> 500 \<le> n))"
    then show "RoleGuard_canActivate (checkRole http) meta mmeta req s
              = (Inl (ServiceUnavailableException ''Authorization service unavailable''),
                 awaited s (role_request s u xs (match_or_all mmeta) (guard_context req)) d)"
      by (auto simp: R checkRole_rejected check_catch_def guard_catch_def)
  next
    assume a: "check u xs (match_or_all mmeta) (guard_context req) s = (Inl e, s1)
            \<and> \<not> instanceof_ServiceUnavailable e"
    then show "PermissionGuard_canActivate check meta mmeta req s
                  = (Inl (ForbiddenException ''Access denied''), s1)"
      by (simp add: P guard_catch_def)
    from a show "RoleGuard_canActivate check meta mmeta req s
                  = (Inl (ForbiddenException ''Access denied''), s1)"
      by (simp add: R guard_catch_def)
  next
    assume a: "check u xs (match_or_all mmeta) (guard_context req) s = (Inl e, s1)
            \<and> instanceof_ServiceUnavailable e"
    then show "PermissionGuard_canActivate check meta mmeta req s = (Inl e, s1)"
      by (simp add: P guard_catch_def)
    from a show "RoleGuard_canActivate check meta mmeta req s = (Inl e, s1)"
      by (simp add: R guard_catch_def)
  next
    assume a: "fst (PermissionGuard_canActivate (checkPermission http) meta mmeta req s) = Inr True"
    show "\<exists>r' d'. http (permission_request s u xs (match_or_all mmeta) (guard_context req))
                    = (Resolved r', d')
                  \<and> truthy (get_prop (data r') ''hasPermission'')"
    proof (cases "http (permission_request s u xs (match_or_all mmeta) (guard_context req))")
      case (Pair res d')
      show ?thesis
      proof (cases res)
        case (Resolved r')
        with Pair a show ?thesis
          by (simp add: P checkPermission_resolved split: if_splits)
      next
        case (Rejected e')
        with Pair a show ?thesis
          by (simp add: P checkPermission_rejected check_catch_def guard_catch_def split: if_splits)
      qed
    qed
  next
    assume a: "fst (RoleGuard_canActivate (checkRole http) meta mmeta req s) = Inr True"
    show "\<exists>r' d'. http (role_request s u xs (match_or_all mmeta) (guard_context req))
                    = (Resolved r', d')
                  \<and> truthy (get_prop (data r') ''hasRole'')"
    proof (cases "http (role_request s u xs (match_or_all mmeta) (guard_context req))")
      case (Pair res d')
      show ?thesis
      proof (cases res)
        case (Resolved r')
        with Pair a show ?thesis
          by (simp add: R checkRole_resolved split: if_splits)
      next
        case (Rejected e')
        with Pair a show ?thesis
          by (simp add: R checkRole_rejected check_catch_def guard_catch_def split: if_splits)
      qed
    qed
  qed
qed

theorem guard_outcome_of_access_check_witness:
  "fst (PermissionGuard_canActivate (checkPermission authority_malformed) (MetaList [''a'']) None
          req_org1 prod_sys) = Inl (ForbiddenException ''Access denied'')
   \<and> fst (RoleGuard_canActivate (checkRole authority_empty_body) (MetaList [''a'']) None
          req_org1 prod_sys) = Inl (ForbiddenException ''Access denied'')
   \<and> fst (PermissionGuard_canActivate (checkPermission authority_403_inactive) (MetaList [''a''])
          None req_org1 prod_sys) = Inl (ForbiddenException ''Access denied'')
   \<and> fst (RoleGuard_canActivate (checkRole authority_403_inactive) (MetaList [''a''])
          None req_org1 prod_sys) = Inl (ForbiddenException ''Access denied'')
   \<and> fst (PermissionGuard_canActivate (checkPermission authority_timeout) (MetaList [''a''])
          None req_org1 prod_sys)
       = Inl (ServiceUnavailableException ''Authorization service unavailable'')
   \<and> fst (RoleGuard_canActivate (checkRole authority_503_inactive) (MetaList [''a''])
          None req_org1 prod_sys)
       = Inl (ServiceUnavailableException ''Authorization service unavailable'')
   \<and> fst (PermissionGuard_canActivate (checkPermission authority_grants) (MetaList [''a''])
          None req_org1 prod_sys) = Inr True
   \<and> fst (RoleGuard_canActivate (checkRole authority_denies) (MetaList [''a''])
          None req_org1 prod_sys) = Inl (ForbiddenException ''Access denied'')
   \<and> PermissionGuard_canActivate (validator_throws (Error ''boom'')) (MetaList [''a'']) None
          req_org1 prod_sys = (Inl (ForbiddenException ''Access denied''), prod_sys)
   \<and> RoleGuard_canActivate (validator_throws (ServiceUnavailableException ''down''))
          (MetaList [''a'']) None req_org1 prod_sys
       = (Inl (ServiceUnavailableException ''down''), prod_sys)"
  using
    guard_outcome_of_access_check [OF required_a a_nonempty req_org1_user alice_truthy req_org1_org,
      where http = authority_malformed and mmeta = None and s = prod_sys and d = 5
        and r = "\<lparr>status = 200, data = JStr ''<html>oops</html>''\<rparr>"]
    guard_outcome_of_access_check [OF required_a a_nonempty req_org1_user alice_truthy req_org1_org,
      where http = authority_empty_body and mmeta = None and s = prod_sys and d = 5
        and r = "\<lparr>status = 200, data = JObj []\<rparr>"]
    guard_outcome_of_access_check [OF required_a a_nonempty req_org1_user alice_truthy req_org1_org,
      where http = authority_403_inactive and mmeta = None and s = prod_sys and d = 5
        and e = "AxiosError (Some \<lparr>status = 403, data = JObj [(''active'', JBool False)]\<rparr>)
                   ''Request failed with status code 403''" and n = 403]
    guard_outcome_of_access_check [OF required_a a_nonempty req_org1_user alice_truthy req_org1_org,
      where http = authority_timeout and mmeta = None and s = prod_sys and d = 5000
        and e = "AxiosError None ''timeout of 5000ms exceeded''"]
    guard_outcome_of_access_check [OF required_a a_nonempty req_org1_user alice_truthy req_org1_org,
      where http = authority_503_inactive and mmeta = None and s = prod_sys and d = 5
        and e = "AxiosError (Some \<lparr>status = 503, data = JObj [(''active'', JBool False)]\<rparr>)
                   ''Request failed with status code 503''" and n = 503]
    guard_outcome_of_access_check [OF required_a a_nonempty req_org1_user alice_truthy req_org1_org,
      where http = authority_grants and mmeta = None and s = prod_sys and d = 5
        and r = "\<lparr>status = 200,
                  data = JObj [(''hasPermission'', JBool True), (''hasRole'', JBool True)]\<rparr>"]
    guard_outcome_of_access_check [OF required_a a_nonempty req_org1_user alice_truthy req_org1_org,
      where http = authority_denies and mmeta = None and s = prod_sys and d = 5
        and r = "\<lparr>status = 200,
                  data = JObj [(''hasPermission'', JBool False), (''hasRole'', JBool False)]\<rparr>"]
    guard_outcome_of_access_check [OF required_a a_nonempty req_org1_user alice_truthy req_org1_org,
      where check = "validator_throws (Error ''boom'')" and mmeta = None and s = prod_sys
        and e = "Error ''boom''" and ?s1.0 = prod_sys]
    guard_outcome_of_access_check [OF required_a a_nonempty req_org1_user alice_truthy req_org1_org,
      where check = "validator_throws (ServiceUnavailableException ''down'')" and mmeta = None
        and s = prod_sys and e = "ServiceUnavailableException ''down''" and ?s1.0 = prod_sys]
  by (simp add: authority_malformed_def authority_empty_body_def authority_403_inactive_def
        authority_timeout_def authority_503_inactive_def authority_grants_def authority_denies_def
        validator_throws_def)

section \<open>Inactive tokens\<close>

text \<open>
  An error response with status 503 whose body says \<^verbatim>\<open>active: false\<close>: the body of a
  rejected call is never read, and the status decides for
  \<^verbatim>\<open>ServiceUnavailableException\<close>.
\<close>

theorem inactive_body_of_5xx_counterexample:
  "authority_503_inactive (introspect_request prod_sys ''T2'')
     = (Rejected (AxiosError (Some \<lparr>status = 503, data = JObj [(''active'', JBool False)]\<rparr>)
          ''Request failed with status code 503''), 5)
   \<and> get_prop (JObj [(''active'', JBool False)]) ''active'' = JBool False
   \<and> fst (validateToken authority_503_inactive ''T2'' prod_sys)
       = Inl (ServiceUnavailableException ''Auth service unavailable'')
   \<and> \<not> instanceof_Unauthorized (ServiceUnavailableException ''Auth service unavailable'')"
  by (simp add: authority_503_inactive_def validateToken_catch_def
        validateToken_rejected [where d = 5, OF prod_miss])

text \<open>
  C6, amended. Let the body of an introspection response carry \<^verbatim>\<open>active: false\<close> (or no
  truthy \<^verbatim>\<open>active\<close> at all), in a call that is not served from the cache. If the response
  is what the POST resolves with, \<^verbatim>\<open>validateToken\<close> fails with
  \<^verbatim>\<open>UnauthorizedException\<close> whatever the status of the response. If the response comes
  with a rejected POST, only its status counts: 1 to 499 gives
  \<^verbatim>\<open>UnauthorizedException\<close>, 0 or at least 500 gives
  \<^verbatim>\<open>ServiceUnavailableException\<close>.
\<close>

theorem inactive_token_rejected:
  assumes miss: "cache_lookup s token = None"
      and inactive: "\<not> truthy (get_prop (data r) ''active'')"
  shows "(http (introspect_request s token) = (Resolved r, d) \<longrightarrow>
            fst (validateToken http token s) = Inl (UnauthorizedException ''Invalid token''))
       \<and> (http (introspect_request s token) = (Rejected (AxiosError (Some r) m), d)
            \<and> 0 < status r \<and> status r < 500 \<longrightarrow>
            fst (validateToken http token s)
              = Inl (UnauthorizedException ''Access denied - Token verification failed''))
       \<and> (http (introspect_request s token) = (Rejected (AxiosError (Some r) m), d)
            \<and> (status r = 0 \<or> 500 \<le> status r) \<longrightarrow>
            fst (validateToken http token s)
              = Inl (ServiceUnavailableException ''Auth service unavailable''))"
  using assms
  by (auto simp: validateToken_rejected validateToken_inactive validateToken_catch_def)

theorem inactive_token_rejected_witness:
  "cache_lookup prod_sys ''T2'' = None
   \<and> \<not> truthy (get_prop (JObj [(''active'', JBool False)]) ''active'')
   \<and> fst (validateToken authority_inactive ''T2'' prod_sys)
       = Inl (UnauthorizedException ''Invalid token'')
   \<and> fst (validateToken authority_403_inactive ''T2'' prod_sys)
       = Inl (UnauthorizedException ''Access denied - Token verification failed'')"
  using
    inactive_token_rejected [where s = prod_sys and token = "''T2''" and http = authority_inactive
      and r = "\<lparr>status = 200, data = JObj [(''active'', JBool False)]\<rparr>" and d = 5]
    inactive_token_rejected [where s = prod_sys and token = "''T2''"
      and http = authority_403_inactive
      and r = "\<lparr>status = 403, data = JObj [(''active'', JBool False)]\<rparr>" and d = 5
      and m = "''Request failed with status code 403''"]
  by (simp add: prod_miss authority_inactive_def authority_403_inactive_def)

section \<open>The organisation header\<close>

lemma required_perm_a: "required_list (MetaList [''perm.a'']) = Some [''perm.a'']"
  by simp

lemma perm_a_nonempty: "[''perm.a''] \<noteq> ([] :: string list)"
  by simp

lemma required_role_admin: "required_list (MetaString ''role.admin'') = Some [''role.admin'']"
  by simp

lemma role_admin_nonempty: "[''role.admin''] \<noteq> ([] :: string list)"
  by simp

text \<open>
  Both guards look at the user before they look at the header: without a user on the
  request, or with a user whose subject is the empty string, a request without
  \<^verbatim>\<open>x-org-id\<close> is answered with \<^verbatim>\<open>ForbiddenException\<close>.
\<close>

theorem missing_org_without_subject_counterexample:
  "headers req_no_user ''x-org-id'' = None
   \<and> fst (PermissionGuard_canActivate (checkPermission authority_grants) (MetaList [''perm.a''])
            None req_no_user prod_sys) = Inl (ForbiddenException ''Access denied'')
   \<and> fst (RoleGuard_canActivate (checkRole authority_grants) (MetaList [''role.admin''])
            None req_no_user prod_sys) = Inl (ForbiddenException ''Access denied'')
   \<and> headers req_empty_sub ''x-org-id'' = None
   \<and> fst (PermissionGuard_canActivate (checkPermission authority_grants) (MetaList [''perm.a''])
            None req_empty_sub prod_sys) = Inl (ForbiddenException ''Access denied'')
   \<and> fst (RoleGuard_canActivate (checkRole authority_grants) (MetaList [''role.admin''])
            None req_empty_sub prod_sys) = Inl (ForbiddenException ''Access denied'')"
  by (simp add: req_no_user_def req_empty_sub_def nameless_def PermissionGuard_canActivate_def
        RoleGuard_canActivate_def)

text \<open>
  C7, amended. For a non-empty requirement: when the request carries a user with a truthy
  subject and the header \<^verbatim>\<open>x-org-id\<close> is absent, empty or blank, either guard fails
  with \<^verbatim>\<open>BadRequestException('Missing x-org-id header')\<close>; when the request carries no
  user, or a user whose subject is not truthy, either guard fails with
  \<^verbatim>\<open>ForbiddenException('Access denied')\<close> whatever the header holds. In both cases the
  state is left as it is and the validator method is not called, so no POST is issued.
\<close>

theorem missing_org_is_bad_request:
  assumes "required_list meta = Some xs" "xs \<noteq> []"
  shows "(req_user req = Some u \<and> truthy (sub u) \<and> org_header_blank req \<longrightarrow>
            PermissionGuard_canActivate check meta mmeta req s
              = (Inl (BadRequestException ''Missing x-org-id header''), s)
            \<and> RoleGuard_canActivate check meta mmeta req s
              = (Inl (BadRequestException ''Missing x-org-id header''), s))
       \<and> (req_user req = None \<or> req_user req = Some u \<and> \<not> truthy (sub u) \<longrightarrow>
            PermissionGuard_canActivate check meta mmeta req s
              = (Inl (ForbiddenException ''Access denied''), s)
            \<and> RoleGuard_canActivate check meta mmeta req s
              = (Inl (ForbiddenException ''Access denied''), s))"
proof (intro conjI impI)
  assume a: "req_user req = Some u \<and> truthy (sub u) \<and> org_header_blank req"
  then have b: "orgId (guard_context req) = []" by (simp add: blank_org_context)
  from a b assms show "PermissionGuard_canActivate check meta mmeta req s
              = (Inl (BadRequestException ''Missing x-org-id header''), s)"
    by (simp add: PermissionGuard_canActivate_def)
  from a b assms show "RoleGuard_canActivate check meta mmeta req s
              = (Inl (BadRequestException ''Missing x-org-id header''), s)"
    by (simp add: RoleGuard_canActivate_def)
next
  assume a: "req_user req = None \<or> req_user req = Some u \<and> \<not> truthy (sub u)"
  with assms show "PermissionGuard_canActivate check meta mmeta req s
              = (Inl (ForbiddenException ''Access denied''), s)"
    by (auto simp: PermissionGuard_canActivate_def)
  from a assms show "RoleGuard_canActivate check meta mmeta req s
              = (Inl (ForbiddenException ''Access denied''), s)"
    by (auto simp: RoleGuard_canActivate_def)
qed

theorem missing_org_is_bad_request_witness:
  "org_header_blank req_no_org \<and> org_header_blank req_blank_org
   \<and> PermissionGuard_canActivate (checkPermission authority_grants) (MetaList [''perm.a'']) None
        req_no_org prod_sys
       = (Inl (BadRequestException ''Missing x-org-id header''), prod_sys)
   \<and> RoleGuard_canActivate (checkRole authority_grants) (MetaString ''role.admin'') None
        req_blank_org prod_sys
       = (Inl (BadRequestException ''Missing x-org-id header''), prod_sys)
   \<and> PermissionGuard_canActivate (checkPermission authority_grants) (MetaList [''perm.a'']) None
        req_org_no_user prod_sys
       = (Inl (ForbiddenException ''Access denied''), prod_sys)
   \<and> RoleGuard_canActivate (checkRole authority_grants) (MetaString ''role.admin'') None
        req_org_empty_sub prod_sys
       = (Inl (ForbiddenException ''Access denied''), prod_sys)
   \<and> RoleGuard_canActivate (checkRole authority_grants) (MetaString ''role.admin'') None
        req_no_user prod_sys
       = (Inl (ForbiddenException ''Access denied''), prod_sys)
   \<and> posts prod_sys = []"
  using
    missing_org_is_bad_request [OF required_perm_a perm_a_nonempty, where req = req_no_org
      and u = alice and check = "checkPermission authority_grants" and mmeta = None and s = prod_sys]
    missing_org_is_bad_request [OF required_role_admin role_admin_nonempty, where req = req_blank_org
      and u = alice and check = "checkRole authority_grants" and mmeta = None and s = prod_sys]
    missing_org_is_bad_request [OF required_perm_a perm_a_nonempty, where req = req_org_no_user
      and u = alice and check = "checkPermission authority_grants" and mmeta = None and s = prod_sys]
    missing_org_is_bad_request [OF required_role_admin role_admin_nonempty,
      where req = req_org_empty_sub and u = nameless and check = "checkRole authority_grants"
      and mmeta = None and s = prod_sys]
    missing_org_is_bad_request [OF required_role_admin role_admin_nonempty,
      where req = req_no_user and u = alice and check = "checkRole authority_grants"
      and mmeta = None and s = prod_sys]
  by (simp add: alice_truthy org_header_blank_def req_no_org_def req_blank_org_def is_ws_def
        req_org_no_user_def req_org_empty_sub_def req_no_user_def nameless_def prod_sys_def)

section \<open>The user a validation returns\<close>

lemma validate_no_sub_prod:
  "validateToken authority_no_sub ''T1'' prod_sys
     = (Inr anonymous,
        (awaited prod_sys (introspect_request prod_sys ''T1'') 5)
          \<lparr>tokenCache := [''T1'' \<mapsto> \<lparr>cached_user = anonymous, expiresAt = 31005\<rparr>]\<rparr>)"
proof -
  have "authority_no_sub (introspect_request prod_sys ''T1'')
          = (Resolved \<lparr>status = 200, data = JObj [(''active'', JBool True)]\<rparr>, 5)"
    by (simp add: authority_no_sub_def)
  from validateToken_active [where http = authority_no_sub, OF prod_miss [of "''T1''"] this]
    prod_not_dev
  show ?thesis
    by (simp add: introspected_user_def anonymous_def INTROSPECTION_TTL_MS_def)
       (simp add: prod_sys_def)
qed

lemma validate_empty_sub_prod: "fst (validateToken authority_empty_sub ''T1'' prod_sys) = Inr nameless"
proof -
  have "authority_empty_sub (introspect_request prod_sys ''T1'')
          = (Resolved \<lparr>status = 200,
               data = JObj [(''active'', JBool True), (''sub'', JStr [])]\<rparr>, 5)"
    by (simp add: authority_empty_sub_def)
  from validateToken_active [where http = authority_empty_sub, OF prod_miss [of "''T1''"] this]
  show ?thesis by (simp add: introspected_user_def nameless_def)
qed

lemma cache_lookup_Some:
  assumes "cache_lookup s token = Some u"
  shows "\<exists>entry. tokenCache s token = Some entry \<and> cached_user entry = u"
  using assms by (auto simp: cache_lookup_def split: if_splits option.splits)

lemma empty_cache_keyed: "cache_keyed_by_token prod_sys"
  by (simp add: cache_keyed_by_token_def prod_sys_def)

text \<open>
  The subject is copied from the body unchecked: an authority that answers
  \<^verbatim>\<open>{active: true, sub: ''}\<close> yields a user whose subject is the empty string, and one
  that answers \<^verbatim>\<open>{active: true}\<close> yields a user whose subject is \<^verbatim>\<open>undefined\<close>.
\<close>

theorem user_without_subject_counterexample:
  "fst (validateToken authority_empty_sub ''T1'' prod_sys) = Inr nameless
   \<and> sub nameless = JStr [] \<and> \<not> nonempty_string (sub nameless)
   \<and> fst (validateToken authority_no_sub ''T1'' prod_sys) = Inr anonymous
   \<and> sub anonymous = JUndefined \<and> \<not> nonempty_string (sub anonymous)"
  by (simp add: validate_no_sub_prod validate_empty_sub_prod) (simp add: anonymous_def nameless_def)

text \<open>
  C9, amended. In a state whose cache entries each hold a user carrying the token the entry
  is filed under (the empty cache is such a state, and \<^verbatim>\<open>validateToken\<close> keeps the
  property), every user returned by \<^verbatim>\<open>validateToken\<close> carries exactly the token the call
  was given; when the call went to the authority, the subject of the user is whatever the
  field \<^verbatim>\<open>sub\<close> of the body holds; and every \<^verbatim>\<open>checkPermission\<close> or \<^verbatim>\<open>checkRole\<close>
  made with that user issues one POST whose \<^verbatim>\<open>Authorization\<close> header is
  \<^verbatim>\<open>Bearer\<close> followed by that token.
\<close>

theorem validated_user_carries_token:
  assumes inv: "cache_keyed_by_token s"
      and ok: "validateToken http token s = (Inr u, s1)"
  shows "accessToken u = token
       \<and> cache_keyed_by_token s1
       \<and> (cache_lookup s token = None \<and> http (introspect_request s token) = (Resolved r, d) \<longrightarrow>
            sub u = get_prop (data r) ''sub'')
       \<and> authorization (permission_request s2 u xs mm ctx) = Some (''Bearer '' @ token)
       \<and> authorization (role_request s2 u xs mm ctx) = Some (''Bearer '' @ token)
       \<and> posts (snd (checkPermission http2 u xs mm ctx s2))
           = posts s2 @ [permission_request s2 u xs mm ctx]
       \<and> posts (snd (checkRole http2 u xs mm ctx s2))
           = posts s2 @ [role_request s2 u xs mm ctx]"
proof -
  have validated:
    "accessToken u = token \<and> cache_keyed_by_token s1
       \<and> (cache_lookup s token = None \<and> http (introspect_request s token) = (Resolved r, d)
            \<longrightarrow> sub u = get_prop (data r) ''sub'')"
  proof (cases "cache_lookup s token")
      case (Some u')
      with ok have eq: "u' = u" "s1 = s" by (simp_all add: validateToken_hit)
      from cache_lookup_Some [OF Some] eq inv have "accessToken u = token"
        by (auto simp: cache_keyed_by_token_def)
      with eq inv Some show ?thesis by simp
    next
      case None
      from validateToken_success_miss [OF None ok] obtain r' d' where
        h: "http (introspect_request s token) = (Resolved r', d')"
        and u: "u = introspected_user r' token"
        and c: "\<not> isDevEnv s \<longrightarrow> tokenCache s1 = (tokenCache s)
                 (token \<mapsto> \<lparr>cached_user = u, expiresAt = clock s1 + INTROSPECTION_TTL_MS\<rparr>)"
        and c': "isDevEnv s \<longrightarrow> tokenCache s1 = tokenCache s"
        by blast
      from u have tok: "accessToken u = token" by (simp add: introspected_user_def)
      have "cache_keyed_by_token s1"
      proof (cases "isDevEnv s")
        case True
        with c' inv show ?thesis by (simp add: cache_keyed_by_token_def)
      next
        case False
        with c inv tok show ?thesis by (simp add: cache_keyed_by_token_def)
      qed
      moreover have "http (introspect_request s token) = (Resolved r, d)
                 \<longrightarrow> sub u = get_prop (data r) ''sub''"
        using h u by (simp add: introspected_user_def)
      ultimately show ?thesis using tok by simp
  qed
  then show ?thesis
    by (simp add: checkPermission_posts checkRole_posts permission_request_def role_request_def)
qed

theorem validated_user_carries_token_witness:
  "cache_keyed_by_token prod_sys
   \<and> fst (validateToken authority_no_sub ''T1'' prod_sys) = Inr anonymous
   \<and> accessToken anonymous = ''T1''
   \<and> sub anonymous = get_prop (JObj [(''active'', JBool True)]) ''sub''
   \<and> authorization (permission_request prod_sys anonymous [''a''] MatchAll org_ctx)
       = Some ''Bearer T1''
   \<and> posts (snd (checkRole authority_grants anonymous [''a''] MatchAll org_ctx prod_sys))
       = [role_request prod_sys anonymous [''a''] MatchAll org_ctx]"
  using validated_user_carries_token [OF empty_cache_keyed validate_no_sub_prod,
      where r = "\<lparr>status = 200, data = JObj [(''active'', JBool True)]\<rparr>" and d = 5
        and ?s2.0 = prod_sys and xs = "[''a'']" and mm = MatchAll and ctx = org_ctx
        and ?http2.0 = authority_grants]
  by (simp add: empty_cache_keyed validate_no_sub_prod prod_miss authority_no_sub_def)
     (simp add: prod_sys_def)

end
